theory Spec2Isabelle
  imports Main "HOL-Library.Word"
begin

unbundle bit_operations_syntax

section \<open>The BNO055 driver (bno055.py)\<close>

text \<open>
  A shallow embedding of class \<open>BNO055\<close>. Every method works on an explicit
  \<open>world\<close>: the I2C transport behind \<open>self.i2c\<close>, the flash file system, the two
  shares of the task and a trace of the observable calls. A method returns its
  result (\<open>Inr\<close>) or the exception that left it (\<open>Inl\<close>) together with the
  world it leaves behind.
\<close>

subsection \<open>Environment: transport, files, clock, console\<close>

type_synonym byte = "8 word"

text \<open>The exceptions that can leave a method of the class.\<close>

datatype error = OSError | IndexError | StructError

text \<open>
  The reply of the bus to one transaction: no acknowledge (\<open>pyb\<close> raises \<open>OSError\<close>),
  or an acknowledge with the bytes the device would send, indexed from 0. A write
  ignores the bytes.
\<close>

datatype reply = NoAck | Ack "nat \<Rightarrow> byte"

text \<open>The lines the driver prints; formatted values are kept as values.\<close>

datatype line =
    Text string
  | Calibrating "int \<times> int \<times> int \<times> int"
  | SaveFailed error
  | DebugHeading int int

text \<open>
  The calls the collaborators see, in program order. \<open>MemWrite data addr reg\<close>
  and \<open>MemRead n addr reg\<close> are the calls \<open>i2c.mem_write(data, addr, reg)\<close> and
  \<open>i2c.mem_read(n, addr, reg)\<close>, recorded whether or not the bus acknowledges.
\<close>

datatype event =
    MemWrite "byte list" nat nat
  | MemRead nat nat nat
  | Delay nat
  | Print line
  | GcCollect
  | SharePut int
  | Yield int

record world =
  bus :: "nat \<Rightarrow> reply"
  txn :: nat
  files :: "string \<rightharpoonup> byte list"
  trace :: "event list"
  heading_share :: int
  target_heading :: int

type_synonym 'a io = "world \<Rightarrow> (error + 'a) \<times> world"

definition ret :: "'a \<Rightarrow> 'a io" where
  "ret x w = (Inr x, w)"

definition raise :: "error \<Rightarrow> 'a io" where
  "raise e w = (Inl e, w)"

definition bindE :: "'a io \<Rightarrow> ('a \<Rightarrow> 'b io) \<Rightarrow> 'b io" where
  "bindE m f w = (case m w of (Inl e, w') \<Rightarrow> (Inl e, w') | (Inr x, w') \<Rightarrow> f x w')"

definition thenE :: "unit io \<Rightarrow> 'b io \<Rightarrow> 'b io" where
  "thenE m k = bindE m (\<lambda>_. k)"

text \<open>\<open>try: m except: h\<close> and \<open>try: m except Exception as e: h\<close>.\<close>

definition try_except :: "'a io \<Rightarrow> (error \<Rightarrow> 'a io) \<Rightarrow> 'a io" where
  "try_except m h w = (case m w of (Inl e, w') \<Rightarrow> h e w' | (Inr x, w') \<Rightarrow> (Inr x, w'))"

text \<open>\<open>try: m except OSError as e: h\<close>: any other exception passes through.\<close>

definition try_except_OSError :: "'a io \<Rightarrow> (error \<Rightarrow> 'a io) \<Rightarrow> 'a io" where
  "try_except_OSError m h w =
     (case m w of
        (Inl e, w') \<Rightarrow> (if e = OSError then h e w' else (Inl e, w'))
      | (Inr x, w') \<Rightarrow> (Inr x, w'))"

definition emit :: "event \<Rightarrow> unit io" where
  "emit ev w = (Inr (), w\<lparr>trace := trace w @ [ev]\<rparr>)"

definition print :: "line \<Rightarrow> unit io" where
  "print l = emit (Print l)"

definition delay :: "nat \<Rightarrow> unit io" where
  "delay ms = emit (Delay ms)"

definition gc_collect :: "unit io" where
  "gc_collect = emit GcCollect"

definition mem_write :: "byte list \<Rightarrow> nat \<Rightarrow> nat \<Rightarrow> unit io" where
  "mem_write data addr reg w =
     (let w' = w\<lparr>trace := trace w @ [MemWrite data addr reg], txn := Suc (txn w)\<rparr>
      in case bus w (txn w) of
           NoAck \<Rightarrow> (Inl OSError, w')
         | Ack _ \<Rightarrow> (Inr (), w'))"

definition mem_read :: "nat \<Rightarrow> nat \<Rightarrow> nat \<Rightarrow> (byte list) io" where
  "mem_read n addr reg w =
     (let w' = w\<lparr>trace := trace w @ [MemRead n addr reg], txn := Suc (txn w)\<rparr>
      in case bus w (txn w) of
           NoAck \<Rightarrow> (Inl OSError, w')
         | Ack f \<Rightarrow> (Inr (map f [0..<n]), w'))"

text \<open>
  The file system is the current directory of the board, with no directory below it:
  \<open>files\<close> maps the plain names in it to their contents. A name with a \<open>/\<close> lies in
  a directory that does not exist: \<open>open(filename, "wb")\<close> raises \<open>OSError\<close> for it,
  and \<open>listdir()\<close> never holds it. For a plain name \<open>open(filename, "wb")\<close>
  truncates, and \<open>f.write(data)\<close> appends to what is there.
\<close>

definition open_wb :: "string \<Rightarrow> unit io" where
  "open_wb filename w =
     (if CHR ''/'' \<in> set filename then (Inl OSError, w)
      else (Inr (), w\<lparr>files := (files w)(filename \<mapsto> [])\<rparr>))"

definition listdir :: "world \<Rightarrow> string \<Rightarrow> bool" where
  "listdir w filename = (CHR ''/'' \<notin> set filename \<and> files w filename \<noteq> None)"

definition file_write :: "string \<Rightarrow> byte list \<Rightarrow> unit io" where
  "file_write filename data w =
     (Inr (), w\<lparr>files := (files w)(filename \<mapsto>
        (case files w filename of None \<Rightarrow> [] | Some old \<Rightarrow> old) @ data)\<rparr>)"

definition share_put :: "int \<Rightarrow> unit io" where
  "share_put v w = (Inr (), w\<lparr>heading_share := v, trace := trace w @ [SharePut v]\<rparr>)"

subsection \<open>Class constants\<close>

definition I2C_ADDR :: nat where "I2C_ADDR = 0x28"
definition REG_OPR_MODE :: nat where "REG_OPR_MODE = 0x3D"
definition REG_CALIB_STAT :: nat where "REG_CALIB_STAT = 0x35"
definition REG_EULER_ANGLES :: nat where "REG_EULER_ANGLES = 0x1A"
definition REG_GYRO_DATA :: nat where "REG_GYRO_DATA = 0x14"
definition REG_CALIBRATION_DATA :: nat where "REG_CALIBRATION_DATA = 0x55"

definition MODE_CONFIG :: byte where "MODE_CONFIG = 0x00"
definition MODE_NDOF :: byte where "MODE_NDOF = 0x0C"

definition S0_CALIBRATION :: int where "S0_CALIBRATION = 0"
definition S1_ANGLES :: int where "S1_ANGLES = 1"
definition S2_VELCOITY :: int where "S2_VELCOITY = 2"
definition S3_HOLDING :: int where "S3_HOLDING = 3"

definition CAL_FILE :: string where "CAL_FILE = ''IMUcalibration.txt''"

text \<open>The attributes that \<open>__init__\<close> stores on the object.\<close>

record bno055 =
  profiler :: bool
  state :: int
  debug :: bool

subsection \<open>Mode control\<close>

definition set_mode :: "byte \<Rightarrow> unit io" where
  "set_mode mode =
     try_except_OSError
       (thenE (mem_write [mode] I2C_ADDR REG_OPR_MODE) (delay 10))
       (\<lambda>e. thenE (print (Text ''[ERROR] BNO055 cannot set mode'')) (raise e))"

definition initialize_imu :: "unit io" where
  "initialize_imu =
     thenE (set_mode MODE_CONFIG)
       (try_except
          (thenE (set_mode MODE_NDOF) (print (Text ''[BNO055] Initialized in NDOF Mode.'')))
          (\<lambda>e. print (Text ''[ERROR] BNO055 not detected. Check wiring!'')))"

subsection \<open>Reading the device\<close>

text \<open>\<open>mem_read(1, ...)[0]\<close> and the four 2-bit fields of the status byte.\<close>

definition get_calibration_status :: "(int \<times> int \<times> int \<times> int) io" where
  "get_calibration_status =
     bindE (mem_read 1 I2C_ADDR REG_CALIB_STAT) (\<lambda>bs.
       case bs of
         [] \<Rightarrow> raise IndexError
       | b # _ \<Rightarrow>
           (let status = uint b;
                sys = (drop_bit 6 status) AND 0x03;
                gyro = (drop_bit 4 status) AND 0x03;
                accel = (drop_bit 2 status) AND 0x03;
                mag = status AND 0x03
            in ret (sys, gyro, accel, mag)))"

text \<open>One \<open>h\<close> field of \<open>struct.unpack("<hhh", ...)\<close>: low byte first, two's complement.\<close>

definition int16_le :: "byte \<Rightarrow> byte \<Rightarrow> int" where
  "int16_le lo hi = sint (word_cat hi lo :: 16 word)"

fun unpack_hhh :: "byte list \<Rightarrow> (int \<times> int \<times> int) io" where
  "unpack_hhh [b0, b1, b2, b3, b4, b5] =
     ret (int16_le b0 b1, int16_le b2 b3, int16_le b4 b5)"
| "unpack_hhh _ = raise StructError"

definition get_euler_angles :: "(int \<times> int \<times> int) io" where
  "get_euler_angles =
     bindE (mem_read 6 I2C_ADDR REG_EULER_ANGLES) (\<lambda>raw_data.
       bindE (unpack_hhh raw_data) (\<lambda>(heading, pitch, roll).
         ret (heading, pitch, roll)))"

definition get_angular_velocity :: "(int \<times> int \<times> int) io" where
  "get_angular_velocity =
     bindE (mem_read 6 I2C_ADDR REG_GYRO_DATA) (\<lambda>raw_data.
       bindE (unpack_hhh raw_data) (\<lambda>(gyro_x, gyro_y, gyro_z).
         ret (gyro_x, gyro_y, gyro_z)))"

subsection \<open>Calibration data\<close>

definition get_calibration_data :: "(byte list) io" where
  "get_calibration_data = mem_read 22 I2C_ADDR REG_CALIBRATION_DATA"

text \<open>Both exits return \<open>None\<close>: the early \<open>return\<close> and the end of the body.\<close>

definition write_calibration_data :: "byte list \<Rightarrow> unit io" where
  "write_calibration_data data =
     (if length data \<noteq> 22
      then thenE (print (Text ''[ERROR] Invalid calibration data size.'')) (ret ())
      else mem_write data I2C_ADDR REG_CALIBRATION_DATA)"

definition save_calibration :: "string \<Rightarrow> unit io" where
  "save_calibration filename =
     try_except
       (thenE (open_wb filename)
          (bindE get_calibration_data (\<lambda>data.
             thenE (file_write filename data)
               (print (Text ''[BNO055] Calibration saved successfully.'')))))
       (\<lambda>e. print (SaveFailed e))"

text \<open>
  \<open>filename in listdir()\<close> is \<open>listdir w filename\<close>; \<open>f.read()\<close> is the whole content
  of the file, which is there once the name is listed.
\<close>

definition load_calibration :: "string \<Rightarrow> bool io" where
  "load_calibration filename w =
     (if listdir w filename then
        (case files w filename of
           Some data \<Rightarrow>
             thenE (write_calibration_data data)
               (thenE (print (Text ''[BNO055] Calibration loaded from file.'')) (ret True)) w
         | None \<Rightarrow> raise OSError w)
      else
        thenE (print (Text ''[BNO055] Needs to be done manually:'')) (ret False) w)"

subsection \<open>The calibration loop\<close>

text \<open>
  The body of \<open>while not calibration_done\<close>: the status is read twice, once for the
  test and once for the printed line; the value of \<open>calibration_done\<close> is returned.
\<close>

definition calibrate_body :: "bool io" where
  "calibrate_body =
     bindE get_calibration_status (\<lambda>(sys, gyro, accel, mag).
       let calibration_done = (gyro + accel + mag = 9)
       in bindE get_calibration_status (\<lambda>shown.
            thenE (print (Calibrating shown))
              (thenE (delay 500) (ret calibration_done))))"

text \<open>
  The loop has no bound: it is a partial function, and \<open>None\<close> is the run that
  never leaves it. \<open>calibration_done\<close> starts as \<open>False\<close>, so the body runs at least once.
\<close>

partial_function (option) calibrate_while :: "world \<Rightarrow> ((error + unit) \<times> world) option" where
  "calibrate_while w =
     (case calibrate_body w of
        (Inl e, w') \<Rightarrow> Some (Inl e, w')
      | (Inr calibration_done, w') \<Rightarrow>
          if calibration_done then Some (Inr (), w') else calibrate_while w')"

definition calibrate_if_needed :: "world \<Rightarrow> ((error + unit) \<times> world) option" where
  "calibrate_if_needed w =
     (case load_calibration CAL_FILE w of
        (Inl e, w1) \<Rightarrow> Some (Inl e, w1)
      | (Inr loaded, w1) \<Rightarrow>
          if \<not> loaded then
            (case calibrate_while w1 of
               None \<Rightarrow> None
             | Some (Inl e, w2) \<Rightarrow> Some (Inl e, w2)
             | Some (Inr _, w2) \<Rightarrow>
                 Some (thenE (save_calibration CAL_FILE)
                         (print (Text ''[BNO055] Calibration complete and saved.'')) w2))
          else Some (print (Text ''[BNO055] Calibration complete and saved.'') w1))"

subsection \<open>Construction and the sampling task\<close>

definition init :: "bool \<Rightarrow> bool \<Rightarrow> world \<Rightarrow> ((error + bno055) \<times> world) option" where
  "init debug_arg profiler_arg w =
     (case thenE (print (Text ''Initilizing IMU'')) initialize_imu w of
        (Inl e, w1) \<Rightarrow> Some (Inl e, w1)
      | (Inr _, w1) \<Rightarrow>
          (case calibrate_if_needed w1 of
             None \<Rightarrow> None
           | Some (Inl e, w2) \<Rightarrow> Some (Inl e, w2)
           | Some (Inr _, w2) \<Rightarrow>
               Some (thenE (print (Text (CHR 0x5C # ''Initilizing IMU'')))
                       (thenE gc_collect
                          (ret \<lparr>profiler = profiler_arg, state = S1_ANGLES, debug = debug_arg\<rparr>)) w2)))"

text \<open>
  One cycle of the generator \<open>task\<close>: from a resumption to the next \<open>yield\<close>, whose
  value it returns. \<open>heading_share.get()\<close> and \<open>target_heading.get()\<close> read the shares.
\<close>

definition task_cycle :: "bno055 \<Rightarrow> int io" where
  "task_cycle self =
     thenE gc_collect
       (bindE get_euler_angles (\<lambda>(heading, pitch, roll).
          thenE (\<lambda>w. if debug self
                       then print (DebugHeading (target_heading w) (heading_share w)) w
                       else ret () w)
            (thenE (share_put heading)
               (thenE (emit (Yield (state self))) (ret (state self))))))"

text \<open>
  The generator resumed \<open>n\<close> times: the values it yielded, and the exception that
  ended it, if one did.
\<close>

fun task :: "bno055 \<Rightarrow> nat \<Rightarrow> world \<Rightarrow> (int list \<times> error option) \<times> world" where
  "task self 0 w = (([], None), w)"
| "task self (Suc n) w =
     (case task_cycle self w of
        (Inl e, w') \<Rightarrow> (([], Some e), w')
      | (Inr y, w') \<Rightarrow>
          (case task self n w' of ((ys, r), w'') \<Rightarrow> ((y # ys, r), w'')))"

subsection \<open>Worlds and observations used in the statements\<close>

text \<open>
  The world at power-on: a given transport and file system, no transaction made,
  nothing logged, both shares at 0.
\<close>

definition boot_world :: "(nat \<Rightarrow> reply) \<Rightarrow> (string \<rightharpoonup> byte list) \<Rightarrow> world" where
  "boot_world b fs =
     \<lparr>bus = b, txn = 0, files = fs, trace = [], heading_share = 0, target_heading = 0\<rparr>"

text \<open>A transport that acknowledges every transaction and sends the given bytes, then zeros.\<close>

definition ack_all :: "byte list \<Rightarrow> nat \<Rightarrow> reply" where
  "ack_all bs k = Ack (\<lambda>i. if i < length bs then bs ! i else 0)"

text \<open>
  What a cycle of the task may show to its collaborators: no bus write at all, and
  no bus read other than the six bytes of the Euler-angle register.
\<close>

fun orientation_read_only :: "event \<Rightarrow> bool" where
  "orientation_read_only (MemWrite data addr reg) = False"
| "orientation_read_only (MemRead n addr reg) =
     (n = 6 \<and> addr = I2C_ADDR \<and> reg = REG_EULER_ANGLES)"
| "orientation_read_only _ = True"

section \<open>Evaluation rules\<close>

lemmas consts_defs =
  I2C_ADDR_def REG_OPR_MODE_def REG_CALIB_STAT_def REG_EULER_ANGLES_def
  REG_GYRO_DATA_def REG_CALIBRATION_DATA_def MODE_CONFIG_def MODE_NDOF_def
  CAL_FILE_def

lemmas io_defs =
  ret_def raise_def bindE_def thenE_def try_except_def try_except_OSError_def
  emit_def print_def delay_def gc_collect_def mem_write_def mem_read_def
  open_wb_def file_write_def share_put_def

lemma CAL_FILE_plain [simp]: "CHR ''/'' \<notin> set CAL_FILE"
  by (simp add: CAL_FILE_def)

lemma map_upt_6: "map f [0..<6] = [f 0, f 1, f 2, f 3, f 4, f 5]"
  by (simp add: upt_rec eval_nat_numeral)

lemma and_3_eq_mod_4: "(x::int) AND 3 = x mod 4"
proof -
  have "x AND mask 2 = take_bit 2 x" by (simp only: take_bit_eq_mask)
  then show ?thesis by (simp add: take_bit_eq_mod mask_eq_exp_minus_1)
qed

lemma set_mode_run:
  "set_mode mode w =
     (case bus w (txn w) of
        Ack f \<Rightarrow>
          (Inr (), w\<lparr>trace := trace w @ [MemWrite [mode] I2C_ADDR REG_OPR_MODE, Delay 10],
                     txn := Suc (txn w)\<rparr>)
      | NoAck \<Rightarrow>
          (Inl OSError, w\<lparr>trace := trace w @ [MemWrite [mode] I2C_ADDR REG_OPR_MODE,
                              Print (Text ''[ERROR] BNO055 cannot set mode'')],
                           txn := Suc (txn w)\<rparr>))"
  by (simp add: set_mode_def io_defs Let_def split: reply.split)

lemma get_calibration_status_run:
  "get_calibration_status w =
     (case bus w (txn w) of
        NoAck \<Rightarrow>
          (Inl OSError, w\<lparr>trace := trace w @ [MemRead 1 I2C_ADDR REG_CALIB_STAT],
                           txn := Suc (txn w)\<rparr>)
      | Ack f \<Rightarrow>
          (Inr (uint (f 0) div 64 mod 4, uint (f 0) div 16 mod 4,
                uint (f 0) div 4 mod 4, uint (f 0) mod 4),
           w\<lparr>trace := trace w @ [MemRead 1 I2C_ADDR REG_CALIB_STAT], txn := Suc (txn w)\<rparr>))"
  by (simp add: get_calibration_status_def io_defs Let_def and_3_eq_mod_4 drop_bit_eq_div
      split: reply.split)

lemma write_calibration_data_run:
  "write_calibration_data data w =
     (if length data \<noteq> 22
      then (Inr (), w\<lparr>trace := trace w @ [Print (Text ''[ERROR] Invalid calibration data size.'')]\<rparr>)
      else (case bus w (txn w) of NoAck \<Rightarrow> Inl OSError | Ack _ \<Rightarrow> Inr (),
            w\<lparr>trace := trace w @ [MemWrite data I2C_ADDR REG_CALIBRATION_DATA],
              txn := Suc (txn w)\<rparr>))"
  by (simp add: write_calibration_data_def io_defs Let_def split: reply.split)

lemma save_calibration_run:
  assumes "CHR ''/'' \<notin> set filename"
  shows "save_calibration filename w =
     (case bus w (txn w) of
        NoAck \<Rightarrow>
          (Inr (), w\<lparr>files := (files w)(filename \<mapsto> []),
                     trace := trace w @ [MemRead 22 I2C_ADDR REG_CALIBRATION_DATA,
                                         Print (SaveFailed OSError)],
                     txn := Suc (txn w)\<rparr>)
      | Ack f \<Rightarrow>
          (Inr (), w\<lparr>files := (files w)(filename \<mapsto> map f [0..<22]),
                     trace := trace w @ [MemRead 22 I2C_ADDR REG_CALIBRATION_DATA,
                                         Print (Text ''[BNO055] Calibration saved successfully.'')],
                     txn := Suc (txn w)\<rparr>))"
  using assms
  by (simp add: save_calibration_def get_calibration_data_def io_defs Let_def split: reply.split)

lemma load_calibration_run:
  assumes "CHR ''/'' \<notin> set filename"
  shows "load_calibration filename w =
     (case files w filename of
        None \<Rightarrow>
          (Inr False, w\<lparr>trace := trace w @ [Print (Text ''[BNO055] Needs to be done manually:'')]\<rparr>)
      | Some data \<Rightarrow>
          (if length data \<noteq> 22
           then (Inr True,
                 w\<lparr>trace := trace w @ [Print (Text ''[ERROR] Invalid calibration data size.''),
                                       Print (Text ''[BNO055] Calibration loaded from file.'')]\<rparr>)
           else (case bus w (txn w) of
                   NoAck \<Rightarrow>
                     (Inl OSError,
                      w\<lparr>trace := trace w @ [MemWrite data I2C_ADDR REG_CALIBRATION_DATA],
                        txn := Suc (txn w)\<rparr>)
                 | Ack _ \<Rightarrow>
                     (Inr True,
                      w\<lparr>trace := trace w @ [MemWrite data I2C_ADDR REG_CALIBRATION_DATA,
                                            Print (Text ''[BNO055] Calibration loaded from file.'')],
                        txn := Suc (txn w)\<rparr>))))"
  using assms
  by (simp add: load_calibration_def listdir_def write_calibration_data_run thenE_def bindE_def
      print_def emit_def ret_def split: option.split reply.split)

section \<open>Mode control\<close>

text \<open>
  C5. For every mode value, \<open>set_mode mode\<close> makes one write of exactly that byte to
  the operating-mode register. When the bus acknowledges, the 10 ms settle delay
  follows and the call returns. When the bus does not, the call prints its error
  line and raises the transport error: the write is not repeated and no delay runs.
\<close>

theorem set_mode_writes_mode_then_settles:
  "(\<forall>f. bus w (txn w) = Ack f \<longrightarrow>
      set_mode mode w =
        (Inr (), w\<lparr>trace := trace w @ [MemWrite [mode] I2C_ADDR REG_OPR_MODE, Delay 10],
                   txn := Suc (txn w)\<rparr>)) \<and>
   (bus w (txn w) = NoAck \<longrightarrow>
      set_mode mode w =
        (Inl OSError, w\<lparr>trace := trace w @ [MemWrite [mode] I2C_ADDR REG_OPR_MODE,
                            Print (Text ''[ERROR] BNO055 cannot set mode'')],
                         txn := Suc (txn w)\<rparr>))"
  by (simp add: set_mode_run)

theorem set_mode_writes_mode_then_settles_witness:
  "set_mode MODE_NDOF (boot_world (ack_all []) Map.empty) =
     (Inr (), (boot_world (ack_all []) Map.empty)
        \<lparr>trace := [MemWrite [0x0C] 0x28 0x3D, Delay 10], txn := 1\<rparr>) \<and>
   set_mode MODE_NDOF (boot_world (\<lambda>_. NoAck) Map.empty) =
     (Inl OSError, (boot_world (\<lambda>_. NoAck) Map.empty)
        \<lparr>trace := [MemWrite [0x0C] 0x28 0x3D, Print (Text ''[ERROR] BNO055 cannot set mode'')],
         txn := 1\<rparr>)"
  using set_mode_writes_mode_then_settles [of "boot_world (ack_all []) Map.empty" MODE_NDOF]
    set_mode_writes_mode_then_settles [of "boot_world (\<lambda>_. NoAck) Map.empty" MODE_NDOF]
  by (simp add: boot_world_def ack_all_def consts_defs)

text \<open>
  C4. \<open>initialize_imu\<close> first sets config mode and then tries NDOF mode. Once the
  first write is acknowledged, the call returns normally whatever the bus answers
  to the second one: a failed NDOF write is logged (by \<open>set_mode\<close> and then as
  hardware not detected) and is not raised again.
\<close>

theorem initialize_imu_swallows_ndof_failure:
  assumes "bus w (txn w) = Ack f"
  shows "initialize_imu w =
     (Inr (), w\<lparr>trace := trace w @
         [MemWrite [MODE_CONFIG] I2C_ADDR REG_OPR_MODE, Delay 10,
          MemWrite [MODE_NDOF] I2C_ADDR REG_OPR_MODE] @
         (case bus w (Suc (txn w)) of
            Ack _ \<Rightarrow> [Delay 10, Print (Text ''[BNO055] Initialized in NDOF Mode.'')]
          | NoAck \<Rightarrow> [Print (Text ''[ERROR] BNO055 cannot set mode''),
                       Print (Text ''[ERROR] BNO055 not detected. Check wiring!'')]),
       txn := Suc (Suc (txn w))\<rparr>)"
  using assms
  by (simp add: initialize_imu_def set_mode_run thenE_def bindE_def try_except_def print_def
      emit_def split: reply.split)

theorem initialize_imu_swallows_ndof_failure_witness:
  "initialize_imu (boot_world (\<lambda>k. if k = 0 then Ack (\<lambda>_. 0) else NoAck) Map.empty) =
     (Inr (), (boot_world (\<lambda>k. if k = 0 then Ack (\<lambda>_. 0) else NoAck) Map.empty)
        \<lparr>trace := [MemWrite [0x00] 0x28 0x3D, Delay 10, MemWrite [0x0C] 0x28 0x3D,
                   Print (Text ''[ERROR] BNO055 cannot set mode''),
                   Print (Text ''[ERROR] BNO055 not detected. Check wiring!'')],
         txn := 2\<rparr>)"
  using initialize_imu_swallows_ndof_failure
    [of "boot_world (\<lambda>k. if k = 0 then Ack (\<lambda>_. 0) else NoAck) Map.empty" "\<lambda>_. 0"]
  by (simp add: boot_world_def consts_defs)

section \<open>Calibration data\<close>

text \<open>
  C3, as the specification states it, has \<open>write_calibration_data\<close> return a
  validation failure for a blob of the wrong size. The method has no such result:
  on the empty blob it prints and returns \<open>None\<close>, the very value it returns after
  a successful write of 22 bytes.
\<close>

theorem write_calibration_data_invalid_size_returns_normally:
  "fst (write_calibration_data [] (boot_world (ack_all []) Map.empty)) = Inr () \<and>
   fst (write_calibration_data (replicate 22 0) (boot_world (ack_all []) Map.empty)) = Inr ()"
  by (simp add: write_calibration_data_run boot_world_def ack_all_def)

text \<open>
  C3, amended. For every blob whose length is not 22, \<open>write_calibration_data\<close>
  makes no transport call: it prints the invalid-size line and returns normally,
  with no failure value. For every blob of length 22 the transport sees exactly one
  write call, carrying exactly those bytes to the calibration-coefficient register;
  the call returns normally when the bus acknowledges and raises \<open>OSError\<close> when
  it does not.
\<close>

theorem write_calibration_data_size_check:
  "(length data \<noteq> 22 \<longrightarrow>
      write_calibration_data data w =
        (Inr (), w\<lparr>trace := trace w @ [Print (Text ''[ERROR] Invalid calibration data size.'')]\<rparr>)) \<and>
   (length data = 22 \<longrightarrow>
      snd (write_calibration_data data w) =
        w\<lparr>trace := trace w @ [MemWrite data I2C_ADDR REG_CALIBRATION_DATA], txn := Suc (txn w)\<rparr> \<and>
      fst (write_calibration_data data w) =
        (case bus w (txn w) of NoAck \<Rightarrow> Inl OSError | Ack _ \<Rightarrow> Inr ()))"
  by (simp add: write_calibration_data_run)

theorem write_calibration_data_size_check_witness:
  "write_calibration_data [1, 2, 3] (boot_world (ack_all []) Map.empty) =
     (Inr (), (boot_world (ack_all []) Map.empty)
        \<lparr>trace := [Print (Text ''[ERROR] Invalid calibration data size.'')]\<rparr>) \<and>
   snd (write_calibration_data (replicate 22 7) (boot_world (ack_all []) Map.empty)) =
     (boot_world (ack_all []) Map.empty)\<lparr>trace := [MemWrite (replicate 22 7) 0x28 0x55], txn := 1\<rparr>"
  using write_calibration_data_size_check [of "[1, 2, 3]" "boot_world (ack_all []) Map.empty"]
    write_calibration_data_size_check [of "replicate 22 7" "boot_world (ack_all []) Map.empty"]
  by (simp add: boot_world_def consts_defs)

text \<open>
  C6. For every 22-byte blob the device holds, \<open>save_calibration\<close> stores exactly
  those bytes under the fixed file name, and \<open>load_calibration\<close> run afterwards hands
  exactly the same bytes to the device write.
\<close>

theorem save_then_load_round_trip:
  assumes "length blob = 22" and "bus w (txn w) = Ack (\<lambda>i. blob ! i)"
  shows "fst (save_calibration CAL_FILE w) = Inr () \<and>
     files (snd (save_calibration CAL_FILE w)) CAL_FILE = Some blob \<and>
     trace (snd (load_calibration CAL_FILE (snd (save_calibration CAL_FILE w)))) =
       trace w @
         [MemRead 22 I2C_ADDR REG_CALIBRATION_DATA,
          Print (Text ''[BNO055] Calibration saved successfully.''),
          MemWrite blob I2C_ADDR REG_CALIBRATION_DATA] @
         (case bus w (Suc (txn w)) of
            Ack _ \<Rightarrow> [Print (Text ''[BNO055] Calibration loaded from file.'')]
          | NoAck \<Rightarrow> [])"
proof -
  have blob: "map (\<lambda>i. blob ! i) [0..<22] = blob"
    using map_nth [of blob] assms(1) by simp
  show ?thesis
    using assms blob
    by (simp add: save_calibration_run load_calibration_run split: reply.split)
qed

theorem save_then_load_round_trip_witness:
  "files (snd (save_calibration CAL_FILE
      (boot_world (\<lambda>_. Ack (\<lambda>i. replicate 22 0x2A ! i)) Map.empty))) CAL_FILE
     = Some (replicate 22 0x2A) \<and>
   trace (snd (load_calibration CAL_FILE (snd (save_calibration CAL_FILE
      (boot_world (\<lambda>_. Ack (\<lambda>i. replicate 22 0x2A ! i)) Map.empty))))) =
     [MemRead 22 0x28 0x55, Print (Text ''[BNO055] Calibration saved successfully.''),
      MemWrite (replicate 22 0x2A) 0x28 0x55,
      Print (Text ''[BNO055] Calibration loaded from file.'')]"
  using save_then_load_round_trip
    [of "replicate 22 0x2A" "boot_world (\<lambda>_. Ack (\<lambda>i. replicate 22 0x2A ! i)) Map.empty"]
  by (simp add: boot_world_def consts_defs)

section \<open>Orientation reader\<close>

lemma uint_word_cat_bytes:
  "uint (word_cat hi lo :: 16 word) = uint (lo::byte) + 256 * uint (hi::byte)"
proof -
  have lo: "0 \<le> uint lo" "uint lo < 256" and hi: "0 \<le> uint hi" "uint hi < 256"
    using uint_lt2p [of lo] uint_lt2p [of hi] by simp_all
  have "uint (word_cat hi lo :: 16 word) = concat_bit 8 (uint lo) (uint hi) mod 2 ^ 16"
    by (simp add: word_cat_eq' uint_word_of_int)
  also have "concat_bit 8 (uint lo) (uint hi) = uint lo + 256 * uint hi"
    using lo by (simp add: concat_bit_eq take_bit_eq_mod push_bit_eq_mult)
  also have "(uint lo + 256 * uint hi) mod 2 ^ 16 = uint lo + 256 * uint hi"
    using lo hi by simp
  finally show ?thesis .
qed

lemma sint_16_word:
  "sint (x :: 16 word) = (if uint x < 32768 then uint x else uint x - 65536)"
proof -
  have b: "0 \<le> uint x" "uint x < 65536"
    using uint_lt2p [of x] by simp_all
  have "sint x = signed_take_bit 15 (uint x)"
    by (simp add: sint_uint)
  also have "\<dots> = take_bit 16 (uint x) - 2 ^ 16 * of_bool (bit (uint x) 15)"
    by (simp add: signed_take_bit_eq_take_bit_minus)
  also have "take_bit 16 (uint x) = uint x"
    using b by (simp add: take_bit_eq_mod)
  also have "bit (uint x) 15 \<longleftrightarrow> \<not> uint x < 32768"
  proof -
    have "uint x div 32768 = (if uint x < 32768 then 0 else 1)"
      using b by auto
    then show ?thesis by (simp add: bit_iff_odd)
  qed
  finally show ?thesis by simp
qed

lemma int16_le_value:
  "int16_le lo hi =
     (if uint lo + 256 * uint hi < 32768 then uint lo + 256 * uint hi
      else uint lo + 256 * uint hi - 65536)"
  by (simp add: int16_le_def sint_16_word uint_word_cat_bytes)

lemma get_euler_angles_run:
  "get_euler_angles w =
     (case bus w (txn w) of
        NoAck \<Rightarrow>
          (Inl OSError, w\<lparr>trace := trace w @ [MemRead 6 I2C_ADDR REG_EULER_ANGLES],
                           txn := Suc (txn w)\<rparr>)
      | Ack f \<Rightarrow>
          (Inr (int16_le (f 0) (f 1), int16_le (f 2) (f 3), int16_le (f 4) (f 5)),
           w\<lparr>trace := trace w @ [MemRead 6 I2C_ADDR REG_EULER_ANGLES], txn := Suc (txn w)\<rparr>))"
  by (simp add: get_euler_angles_def mem_read_def bindE_def ret_def Let_def map_upt_6
      split: reply.split)

lemma get_angular_velocity_run:
  "get_angular_velocity w =
     (case bus w (txn w) of
        NoAck \<Rightarrow>
          (Inl OSError, w\<lparr>trace := trace w @ [MemRead 6 I2C_ADDR REG_GYRO_DATA],
                           txn := Suc (txn w)\<rparr>)
      | Ack f \<Rightarrow>
          (Inr (int16_le (f 0) (f 1), int16_le (f 2) (f 3), int16_le (f 4) (f 5)),
           w\<lparr>trace := trace w @ [MemRead 6 I2C_ADDR REG_GYRO_DATA], txn := Suc (txn w)\<rparr>))"
  by (simp add: get_angular_velocity_def mem_read_def bindE_def ret_def Let_def map_upt_6
      split: reply.split)

text \<open>
  C7. \<open>get_euler_angles\<close> reads 6 bytes from the Euler-angle register and returns
  them as three little-endian signed 16-bit integers (heading, pitch, roll), with no
  unit conversion; \<open>get_angular_velocity\<close> decodes the 6 bytes of the gyroscope
  register in the same way. The bytes \<open>01 00 02 00 FF FF\<close> give \<open>(1, 2, -1)\<close>.
\<close>

theorem get_euler_angles_decodes_int16_le:
  assumes "bus w (txn w) = Ack f"
  shows "get_euler_angles w =
       (Inr (int16_le (f 0) (f 1), int16_le (f 2) (f 3), int16_le (f 4) (f 5)),
        w\<lparr>trace := trace w @ [MemRead 6 I2C_ADDR REG_EULER_ANGLES], txn := Suc (txn w)\<rparr>) \<and>
     get_angular_velocity w =
       (Inr (int16_le (f 0) (f 1), int16_le (f 2) (f 3), int16_le (f 4) (f 5)),
        w\<lparr>trace := trace w @ [MemRead 6 I2C_ADDR REG_GYRO_DATA], txn := Suc (txn w)\<rparr>) \<and>
     (\<forall>lo hi. int16_le lo hi =
        (if uint lo + 256 * uint hi < 32768 then uint lo + 256 * uint hi
         else uint lo + 256 * uint hi - 65536))"
  using assms by (simp add: get_euler_angles_run get_angular_velocity_run int16_le_value)

theorem get_euler_angles_decodes_int16_le_witness:
  "get_euler_angles (boot_world (ack_all [0x01, 0x00, 0x02, 0x00, 0xFF, 0xFF]) Map.empty) =
     (Inr (1, 2, - 1),
      (boot_world (ack_all [0x01, 0x00, 0x02, 0x00, 0xFF, 0xFF]) Map.empty)
        \<lparr>trace := [MemRead 6 0x28 0x1A], txn := 1\<rparr>)"
  using get_euler_angles_decodes_int16_le
    [of "boot_world (ack_all [0x01, 0x00, 0x02, 0x00, 0xFF, 0xFF]) Map.empty"
        "\<lambda>i. if i < length [0x01, 0x00, 0x02, 0x00, 0xFF, 0xFF :: byte]
              then [0x01, 0x00, 0x02, 0x00, 0xFF, 0xFF] ! i else 0"]
  by (simp add: boot_world_def ack_all_def consts_defs)

section \<open>The calibration loop\<close>

lemma get_calibration_status_fields:
  assumes "get_calibration_status v = (Inr (sys, gyro, accel, mag), v')"
  shows "0 \<le> sys \<and> sys \<le> 3 \<and> 0 \<le> gyro \<and> gyro \<le> 3 \<and>
         0 \<le> accel \<and> accel \<le> 3 \<and> 0 \<le> mag \<and> mag \<le> 3"
  using assms by (auto simp: get_calibration_status_run split: reply.splits)

lemma calibrate_body_step:
  assumes "get_calibration_status w = (Inr (sys, gyro, accel, mag), w1)"
      and "get_calibration_status w1 = (Inr shown, w2)"
  shows "calibrate_body w =
     (Inr (gyro + accel + mag = 9), w2\<lparr>trace := trace w2 @ [Print (Calibrating shown), Delay 500]\<rparr>)"
  using assms by (simp add: calibrate_body_def io_defs)

lemma calibrate_body_trace:
  "calibrate_body v = (r, v') \<Longrightarrow>
     \<exists>rest. trace v' = trace v @ MemRead 1 I2C_ADDR REG_CALIB_STAT # rest"
  by (auto simp: calibrate_body_def get_calibration_status_run io_defs split: reply.splits)

lemma calibrate_while_trace_aux:
  assumes "calibrate_while v0 = Some y0"
  shows "\<exists>rest. trace (snd y0) = trace v0 @ MemRead 1 I2C_ADDR REG_CALIB_STAT # rest"
proof (rule calibrate_while.raw_induct
    [where P = "\<lambda>v y. \<exists>rest. trace (snd y) = trace v @ MemRead 1 I2C_ADDR REG_CALIB_STAT # rest",
     OF _ assms])
  fix loop :: "world \<Rightarrow> ((error + unit) \<times> world) option" and v y
  assume IH: "\<And>x y. loop x = Some y \<Longrightarrow>
      \<exists>rest. trace (snd y) = trace x @ MemRead 1 I2C_ADDR REG_CALIB_STAT # rest"
    and step: "(case calibrate_body v of
        (Inl e, w') \<Rightarrow> Some (Inl e, w')
      | (Inr calibration_done, w') \<Rightarrow>
          if calibration_done then Some (Inr (), w') else loop w') = Some y"
  obtain b v1 where body: "calibrate_body v = (b, v1)" by (cases "calibrate_body v")
  then obtain rest where t1: "trace v1 = trace v @ MemRead 1 I2C_ADDR REG_CALIB_STAT # rest"
    using calibrate_body_trace by blast
  show "\<exists>rest. trace (snd y) = trace v @ MemRead 1 I2C_ADDR REG_CALIB_STAT # rest"
  proof (cases b)
    case (Inl e)
    with step body t1 show ?thesis by auto
  next
    case (Inr calibration_done)
    show ?thesis
    proof (cases calibration_done)
      case True
      with step body Inr t1 show ?thesis by auto
    next
      case False
      with step body Inr have "loop v1 = Some y" by simp
      then obtain rest' where "trace (snd y) = trace v1 @ MemRead 1 I2C_ADDR REG_CALIB_STAT # rest'"
        using IH by blast
      with t1 show ?thesis by simp
    qed
  qed
qed

lemma calibrate_while_polls_first:
  "calibrate_while v = Some (r, v') \<Longrightarrow>
     \<exists>rest. trace v' = trace v @ MemRead 1 I2C_ADDR REG_CALIB_STAT # rest"
  using calibrate_while_trace_aux [of v "(r, v')"] by simp

text \<open>
  C1. Take any iteration of the polling loop in which the status read for the test
  gives \<open>(sys, gyro, accel, mag)\<close> and the status read for the printed line is
  answered too. The test computes \<open>gyro + accel + mag = 9\<close>. If it holds, the loop
  ends with this iteration. If it does not, the loop goes on from the world this
  iteration leaves, and whatever it returns comes after one more status read at
  least. \<open>sys\<close> plays no part, and the sum is 9 exactly when the three scores are 3.
  The witness runs the status bytes of \<open>(0,3,3,3)\<close>, which ends the loop, and of
  \<open>(3,3,3,2)\<close>, which does not.
\<close>

theorem calibrate_while_exits_iff_sum_is_9:
  assumes "get_calibration_status w = (Inr (sys, gyro, accel, mag), w1)"
      and "get_calibration_status w1 = (Inr shown, w2)"
  shows "calibrate_body w =
       (Inr (gyro + accel + mag = 9),
        w2\<lparr>trace := trace w2 @ [Print (Calibrating shown), Delay 500]\<rparr>) \<and>
     (gyro + accel + mag = 9 \<longrightarrow>
        calibrate_while w =
          Some (Inr (), w2\<lparr>trace := trace w2 @ [Print (Calibrating shown), Delay 500]\<rparr>)) \<and>
     (gyro + accel + mag \<noteq> 9 \<longrightarrow>
        calibrate_while w =
          calibrate_while (w2\<lparr>trace := trace w2 @ [Print (Calibrating shown), Delay 500]\<rparr>) \<and>
        (\<forall>r w'. calibrate_while w = Some (r, w') \<longrightarrow>
           (\<exists>rest. trace w' =
              trace w2 @ [Print (Calibrating shown), Delay 500] @
                MemRead 1 I2C_ADDR REG_CALIB_STAT # rest))) \<and>
     ((gyro + accel + mag = 9) = (gyro = 3 \<and> accel = 3 \<and> mag = 3))"
proof -
  let ?w3 = "w2\<lparr>trace := trace w2 @ [Print (Calibrating shown), Delay 500]\<rparr>"
  have body: "calibrate_body w = (Inr (gyro + accel + mag = 9), ?w3)"
    using assms by (rule calibrate_body_step)
  have unfold: "calibrate_while w =
      (if gyro + accel + mag = 9 then Some (Inr (), ?w3) else calibrate_while ?w3)"
    by (subst calibrate_while.simps) (simp add: body)
  have again: "\<exists>rest. trace w' = trace w2 @ [Print (Calibrating shown), Delay 500] @
        MemRead 1 I2C_ADDR REG_CALIB_STAT # rest"
    if "gyro + accel + mag \<noteq> 9" "calibrate_while w = Some (r, w')" for r w'
  proof -
    from that unfold have "calibrate_while ?w3 = Some (r, w')" by simp
    from calibrate_while_polls_first [OF this] show ?thesis by simp
  qed
  have range: "(gyro + accel + mag = 9) = (gyro = 3 \<and> accel = 3 \<and> mag = 3)"
    using get_calibration_status_fields [OF assms(1)] by auto
  show ?thesis
    using body unfold again range by simp
qed

theorem calibrate_while_exits_iff_sum_is_9_witness:
  "calibrate_while (boot_world (ack_all [0x3F]) Map.empty) =
     Some (Inr (), (boot_world (ack_all [0x3F]) Map.empty)
       \<lparr>trace := [MemRead 1 0x28 0x35, MemRead 1 0x28 0x35,
                  Print (Calibrating (0, 3, 3, 3)), Delay 500], txn := 2\<rparr>) \<and>
   calibrate_while (boot_world (ack_all [0xFE]) Map.empty) =
     calibrate_while ((boot_world (ack_all [0xFE]) Map.empty)
       \<lparr>trace := [MemRead 1 0x28 0x35, MemRead 1 0x28 0x35,
                  Print (Calibrating (3, 3, 3, 2)), Delay 500], txn := 2\<rparr>)"
proof -
  let ?a = "boot_world (ack_all [0x3F]) Map.empty"
  let ?b = "boot_world (ack_all [0xFE]) Map.empty"
  have a1: "get_calibration_status ?a =
      (Inr (0, 3, 3, 3), ?a\<lparr>trace := [MemRead 1 0x28 0x35], txn := 1\<rparr>)"
    by (simp add: get_calibration_status_run boot_world_def ack_all_def consts_defs)
  have a2: "get_calibration_status (?a\<lparr>trace := [MemRead 1 0x28 0x35], txn := 1\<rparr>) =
      (Inr (0, 3, 3, 3), ?a\<lparr>trace := [MemRead 1 0x28 0x35, MemRead 1 0x28 0x35], txn := 2\<rparr>)"
    by (simp add: get_calibration_status_run boot_world_def ack_all_def consts_defs)
  have b1: "get_calibration_status ?b =
      (Inr (3, 3, 3, 2), ?b\<lparr>trace := [MemRead 1 0x28 0x35], txn := 1\<rparr>)"
    by (simp add: get_calibration_status_run boot_world_def ack_all_def consts_defs)
  have b2: "get_calibration_status (?b\<lparr>trace := [MemRead 1 0x28 0x35], txn := 1\<rparr>) =
      (Inr (3, 3, 3, 2), ?b\<lparr>trace := [MemRead 1 0x28 0x35, MemRead 1 0x28 0x35], txn := 2\<rparr>)"
    by (simp add: get_calibration_status_run boot_world_def ack_all_def consts_defs)
  show ?thesis
    using calibrate_while_exits_iff_sum_is_9 [OF a1 a2]
      calibrate_while_exits_iff_sum_is_9 [OF b1 b2]
    by (simp add: boot_world_def)
qed

section \<open>Restore or earn\<close>



text \<open>
  C10. When the calibration file exists and its content is not exactly 22 bytes,
  \<open>load_calibration\<close> still returns \<open>True\<close>: the size check skips the device
  write, and \<open>calibrate_if_needed\<close> ends at once, with no status read, no bus
  transaction at all and the calibration registers never written.
\<close>

theorem wrong_size_file_counts_as_restored:
  assumes "files w CAL_FILE = Some data" and "length data \<noteq> 22"
  shows "load_calibration CAL_FILE w =
       (Inr True, w\<lparr>trace := trace w @
          [Print (Text ''[ERROR] Invalid calibration data size.''),
           Print (Text ''[BNO055] Calibration loaded from file.'')]\<rparr>) \<and>
     calibrate_if_needed w =
       Some (Inr (), w\<lparr>trace := trace w @
          [Print (Text ''[ERROR] Invalid calibration data size.''),
           Print (Text ''[BNO055] Calibration loaded from file.''),
           Print (Text ''[BNO055] Calibration complete and saved.'')]\<rparr>)"
  using assms
  by (simp add: calibrate_if_needed_def load_calibration_run print_def emit_def)

theorem wrong_size_file_counts_as_restored_witness:
  "calibrate_if_needed (boot_world (ack_all [0x3F]) (Map.empty(CAL_FILE \<mapsto> [1, 2, 3]))) =
     Some (Inr (), (boot_world (ack_all [0x3F]) (Map.empty(CAL_FILE \<mapsto> [1, 2, 3])))
       \<lparr>trace := [Print (Text ''[ERROR] Invalid calibration data size.''),
                  Print (Text ''[BNO055] Calibration loaded from file.''),
                  Print (Text ''[BNO055] Calibration complete and saved.'')]\<rparr>)"
  using wrong_size_file_counts_as_restored
    [of "boot_world (ack_all [0x3F]) (Map.empty(CAL_FILE \<mapsto> [1, 2, 3]))" "[1, 2, 3]"]
  by (simp add: boot_world_def)

end
